theory Spec2Isabelle
  imports Complex_Main "HOL-Library.AList"
begin

section \<open>JavaScript numbers\<close>

text \<open>
  The values that reach the numeric code of \<^verbatim>\<open>eew.js\<close>: a number, the number
  \<^verbatim>\<open>NaN\<close>, or \<^verbatim>\<open>null\<close> (the initial value of \<^verbatim>\<open>rawMagnitudeForCalc\<close> and
  \<^verbatim>\<open>rawDepthForCalc\<close>). Finite numbers are the reals: the rounding of IEEE doubles
  and the infinities are outside this model.
\<close>

datatype numval = Null | NaN | Num real

text \<open>\<^verbatim>\<open>isNaN(v)\<close>: the argument is converted with \<^verbatim>\<open>Number\<close>, and \<^verbatim>\<open>Number(null)\<close> is 0.\<close>

fun isNaN :: "numval \<Rightarrow> bool" where
  "isNaN Null = False"
| "isNaN NaN = True"
| "isNaN (Num x) = False"

text \<open>\<^verbatim>\<open>v < c\<close> and \<^verbatim>\<open>v <= c\<close> for a number \<^verbatim>\<open>c\<close>: false on \<^verbatim>\<open>NaN\<close>, \<^verbatim>\<open>null\<close> compares as 0.\<close>

fun js_less :: "numval \<Rightarrow> real \<Rightarrow> bool" where
  "js_less Null c = (0 < c)"
| "js_less NaN c = False"
| "js_less (Num x) c = (x < c)"

fun js_le :: "numval \<Rightarrow> real \<Rightarrow> bool" where
  "js_le Null c = (0 \<le> c)"
| "js_le NaN c = False"
| "js_le (Num x) c = (x \<le> c)"

text \<open>
  \<^verbatim>\<open>parseFloat(v)\<close> of a value that is already a number: the number is printed and read
  back, which gives the number again; \<^verbatim>\<open>parseFloat(null)\<close> reads the text "null" and
  gives \<^verbatim>\<open>NaN\<close>.
\<close>

fun parseFloat :: "numval \<Rightarrow> numval" where
  "parseFloat Null = NaN"
| "parseFloat NaN = NaN"
| "parseFloat (Num x) = Num x"

text \<open>\<^verbatim>\<open>Number(v)\<close> as used by arithmetic on a value known not to be \<^verbatim>\<open>NaN\<close>.\<close>

fun toNumber :: "numval \<Rightarrow> real" where
  "toNumber (Num x) = x"
| "toNumber Null = 0"
| "toNumber NaN = 0"

section \<open>The intensity estimator\<close>

text \<open>
  \<^verbatim>\<open>estimateIntensity(magnitude, depth)\<close>, lines 88 to 111. \<^verbatim>\<open>Math.round\<close> rounds a
  half upwards, which is \<^const>\<open>round\<close>; \<^verbatim>\<open>Math.log10\<close> is the logarithm to base 10.
\<close>

definition estimateIntensity :: "numval \<Rightarrow> numval \<Rightarrow> int" where
  "estimateIntensity magnitude depth =
     (if isNaN magnitude \<or> js_less magnitude 3.0 then 0
      else
        let actualDepth0 = parseFloat depth;
            actualDepth = (if isNaN actualDepth0 \<or> js_le actualDepth0 0 then 10
                           else toNumber actualDepth0);
            logDepth = log 10 actualDepth;
            estimatedI = (1.5 * toNumber magnitude) + 3.0 - (3.5 * logDepth);
            rounded = round estimatedI
        in max 0 (min 12 rounded))"





section \<open>Feed snapshots\<close>

text \<open>
  A value of a JSON field that the code tests for truthiness, compares, shows or uses
  as a key: absent (\<^verbatim>\<open>undefined\<close>), \<^verbatim>\<open>null\<close>, a number, a string or a boolean.
\<close>

datatype jsval = VUndefined | VNull | VNum real | VStr string | VBool bool

fun truthy :: "jsval \<Rightarrow> bool" where
  "truthy VUndefined = False"
| "truthy VNull = False"
| "truthy (VNum x) = (x \<noteq> 0)"
| "truthy (VStr s) = (s \<noteq> [])"
| "truthy (VBool b) = b"

text \<open>\<^verbatim>\<open>a || b\<close> on values.\<close>

definition js_or :: "jsval \<Rightarrow> jsval \<Rightarrow> jsval" where
  "js_or a b = (if truthy a then a else b)"

text \<open>The field \<^verbatim>\<open>type\<close> of a snapshot; \<open>other_type\<close> is any other or no value.\<close>

datatype eew_type = sc_eew | fj_eew | cwa_eew | jma_eew | test_eew | other_type

text \<open>
  A snapshot as a feed or the test button delivers it. The numeric fields
  (\<^verbatim>\<open>Latitude\<close>, \<^verbatim>\<open>Longitude\<close>, \<^verbatim>\<open>Magunitude\<close>, \<^verbatim>\<open>Depth\<close>) are JSON numbers, or
  \<open>None\<close> when the field is null or absent. The identifiers \<^verbatim>\<open>EventID\<close> and
  \<^verbatim>\<open>ID\<close> are values of any kind: feeds send strings and numbers. \<open>isCancel\<close> and \<open>isFinal\<close> say whether the field is exactly \<^verbatim>\<open>true\<close>.
  \<open>IssueSource\<close> is \<^verbatim>\<open>data.Issue?.Source\<close>.
\<close>

record snapshot =
  src_type :: eew_type
  EventID :: jsval
  ID :: jsval
  Serial :: jsval
  Latitude :: "real option"
  Longitude :: "real option"
  Magunitude :: "real option"
  Depth :: "real option"
  MaxIntensity :: jsval
  ReportNum :: jsval
  HypoCenter :: jsval
  Hypocenter :: jsval
  OriginTime :: jsval
  loc_name :: jsval
  IssueSource :: jsval
  isCancel :: bool
  isFinal :: bool

text \<open>A numeric field as the value the code reads, and as the value it shows.\<close>

fun field_num :: "real option \<Rightarrow> numval" where
  "field_num None = Null"
| "field_num (Some x) = Num x"

fun field_shown :: "real option \<Rightarrow> jsval" where
  "field_shown None = VNull"
| "field_shown (Some x) = VNum x"

text \<open>
  \<^verbatim>\<open>data.EventID || data.ID || `test-${Date.now()}-${Math.random()...}`\<close>, lines 230
  and 350: the first truthy value, of whatever kind, and else the generated text. The
  argument \<open>rnd\<close> is the text that the clock and the random generator produce.
\<close>

definition eventIdOf :: "snapshot \<Rightarrow> string \<Rightarrow> jsval" where
  "eventIdOf data rnd = js_or (js_or (EventID data) (ID data)) (VStr (''test-'' @ rnd))"

section \<open>The content of an alert banner\<close>

text \<open>The table \<^verbatim>\<open>intColor\<close>, lines 6 to 46.\<close>

definition intColor :: "(string \<times> string) list" where
  "intColor =
     [(''0'', ''#444444''), (''1'', ''#9bc4e4''), (''2'', ''#00a0f1''), (''3'', ''#0062f5''),
      (''4'', ''#2de161''), (''5'', ''#1cac5d''), (''6'', ''#ffbd2b''), (''7'', ''#ff992b''),
      (''8'', ''#fa5151''), (''9'', ''#f4440d''), (''10'', ''#ff000d''), (''11'', ''#c20007''),
      (''12'', ''#fd2fc2'')]"

text \<open>
  \<^verbatim>\<open>intColor[v] && intColor[v].bkcolor\<close>: the key is the value as text. A whole
  number \<open>n\<close> from 0 to 12 prints as the key of entry \<open>n\<close> of the table; no other
  number prints as a key.
\<close>

fun bkcolor :: "jsval \<Rightarrow> string option" where
  "bkcolor (VStr s) = map_of intColor s"
| "bkcolor (VNum x) =
     (if x = of_int \<lfloor>x\<rfloor> \<and> 0 \<le> x \<and> x \<le> 12
      then Some (snd (intColor ! nat \<lfloor>x\<rfloor>)) else None)"
| "bkcolor VUndefined = None"
| "bkcolor VNull = None"
| "bkcolor (VBool b) = None"

text \<open>
  The issuing agency shown in the banner. The labels of the source are Chinese text;
  each constructor stands for one of them, in the order of the source: the default
  label, the Sichuan, Fujian and Taiwan agencies, the source named by a JMA report or
  the JMA's own label, and the simulated agency of a test report (with the name of the
  report, or the default test name).
\<close>

datatype agency =
    Agency_unknown | Agency_sichuan | Agency_fujian | Agency_cwa
  | Agency_issue jsval | Agency_jma
  | Agency_simulated jsval | Agency_simulated_default

text \<open>The depth shown: a value of the snapshot, or the label "depth unknown" of the Fujian feed.\<close>

datatype depth_text = Depth_value jsval | Depth_unknown_label

text \<open>The variables that \<^verbatim>\<open>createEewAlertElement\<close> fills before it builds the banner.\<close>

record alert_vars =
  reportNum :: jsval
  hypoCenter :: jsval
  originTime :: jsval
  magnitudeDisplay :: jsval
  depthDisplay :: depth_text
  maxIntensityDisplay :: jsval
  sourceAgency :: agency
  rawMagnitudeForCalc :: numval
  rawDepthForCalc :: numval

definition initial_vars :: alert_vars where
  "initial_vars =
     \<lparr>reportNum = VStr [], hypoCenter = VStr [], originTime = VStr [],
      magnitudeDisplay = VStr [], depthDisplay = Depth_value (VStr []),
      maxIntensityDisplay = VStr ''-'', sourceAgency = Agency_unknown,
      rawMagnitudeForCalc = Null, rawDepthForCalc = Null\<rparr>"

text \<open>Lines 246 to 296: the fields are read according to the type of the snapshot.\<close>

definition parse_by_type :: "snapshot \<Rightarrow> alert_vars" where
  "parse_by_type data =
     (case src_type data of
        sc_eew \<Rightarrow>
          initial_vars\<lparr>reportNum := ReportNum data, hypoCenter := HypoCenter data,
            originTime := OriginTime data,
            magnitudeDisplay := field_shown (Magunitude data),
            rawMagnitudeForCalc := parseFloat (field_num (Magunitude data)),
            depthDisplay := Depth_value (field_shown (Depth data)),
            rawDepthForCalc := parseFloat (field_num (Depth data)),
            sourceAgency := Agency_sichuan,
            maxIntensityDisplay := MaxIntensity data\<rparr>
      | fj_eew \<Rightarrow>
          initial_vars\<lparr>reportNum := ReportNum data, hypoCenter := HypoCenter data,
            originTime := OriginTime data,
            magnitudeDisplay := field_shown (Magunitude data),
            rawMagnitudeForCalc := parseFloat (field_num (Magunitude data)),
            depthDisplay := Depth_unknown_label,
            rawDepthForCalc := Num 10,
            maxIntensityDisplay := VStr ''N/A'',
            sourceAgency := Agency_fujian\<rparr>
      | cwa_eew \<Rightarrow>
          initial_vars\<lparr>reportNum := ReportNum data, hypoCenter := HypoCenter data,
            originTime := OriginTime data,
            magnitudeDisplay := field_shown (Magunitude data),
            rawMagnitudeForCalc := parseFloat (field_num (Magunitude data)),
            depthDisplay := Depth_value (field_shown (Depth data)),
            rawDepthForCalc := parseFloat (field_num (Depth data)),
            sourceAgency := Agency_cwa,
            maxIntensityDisplay := MaxIntensity data\<rparr>
      | jma_eew \<Rightarrow>
          initial_vars\<lparr>reportNum := Serial data, hypoCenter := Hypocenter data,
            originTime := OriginTime data,
            magnitudeDisplay := field_shown (Magunitude data),
            rawMagnitudeForCalc := parseFloat (field_num (Magunitude data)),
            depthDisplay := Depth_value (field_shown (Depth data)),
            rawDepthForCalc := parseFloat (field_num (Depth data)),
            sourceAgency :=
              (if truthy (IssueSource data) then Agency_issue (IssueSource data)
               else Agency_jma),
            maxIntensityDisplay := MaxIntensity data\<rparr>
      | test_eew \<Rightarrow>
          initial_vars\<lparr>reportNum := js_or (ReportNum data) (Serial data),
            hypoCenter := js_or (HypoCenter data) (Hypocenter data),
            originTime := OriginTime data,
            magnitudeDisplay := field_shown (Magunitude data),
            rawMagnitudeForCalc := parseFloat (field_num (Magunitude data)),
            depthDisplay := Depth_value (field_shown (Depth data)),
            rawDepthForCalc := parseFloat (field_num (Depth data)),
            maxIntensityDisplay := MaxIntensity data,
            sourceAgency :=
              (if truthy (loc_name data) then Agency_simulated (loc_name data)
               else Agency_simulated_default)\<rparr>
      | other_type \<Rightarrow> initial_vars)"

text \<open>
  Lines 298 to 307: the intensity shown is the estimate when neither raw value is
  \<^verbatim>\<open>NaN\<close>; otherwise the value of the feed, or \<^verbatim>\<open>'-'\<close> when that value is
  \<^verbatim>\<open>'N/A'\<close>, \<^verbatim>\<open>undefined\<close> or \<^verbatim>\<open>null\<close>.
\<close>

definition shown_intensity :: "alert_vars \<Rightarrow> jsval" where
  "shown_intensity v =
     (if \<not> isNaN (rawMagnitudeForCalc v) \<and> \<not> isNaN (rawDepthForCalc v)
      then VNum (of_int (estimateIntensity (rawMagnitudeForCalc v) (rawDepthForCalc v)))
      else if maxIntensityDisplay v = VStr ''N/A'' \<or> maxIntensityDisplay v = VUndefined
                \<or> maxIntensityDisplay v = VNull
           then VStr ''-''
           else maxIntensityDisplay v)"

text \<open>Lines 309 to 313: the background colour of the intensity box.\<close>

definition shown_color :: "jsval \<Rightarrow> string" where
  "shown_color i =
     (case (if i \<noteq> VStr ''-'' then bkcolor i else None) of
        Some c \<Rightarrow> c
      | None \<Rightarrow> the (map_of intColor ''0''))"

text \<open>
  What the banner shows: the values that the template of lines 316 to 329 prints. The
  markup around them is fixed, so two banners show the same text exactly when these
  values agree.
\<close>

record content =
  c_reportNum :: jsval
  c_hypoCenter :: jsval
  c_originTime :: jsval
  c_magnitude :: jsval
  c_depth :: depth_text
  c_intensity :: jsval
  c_agency :: agency
  c_color :: string

definition alertContent :: "snapshot \<Rightarrow> content" where
  "alertContent data =
     (let v = parse_by_type data; i = shown_intensity v
      in \<lparr>c_reportNum = reportNum v, c_hypoCenter = hypoCenter v,
          c_originTime = originTime v, c_magnitude = magnitudeDisplay v,
          c_depth = depthDisplay v, c_intensity = i, c_agency = sourceAgency v,
          c_color = shown_color i\<rparr>)"

section \<open>The state of the page\<close>

text \<open>
  Banner elements, timers, animation frames, map overlays and the closures of running
  wave animations are objects with an identity; a handle names one. Timer identifiers
  of the browser are positive, so \<^verbatim>\<open>if (fitViewTimer)\<close> tests whether a timer was stored.
\<close>

type_synonym handle = nat

text \<open>
  A banner element: the value whose text is its attribute \<^verbatim>\<open>data-event-id\<close>, its content, whether it carries the
  class \<^verbatim>\<open>hidden\<close>, and whether a listener waits for \<^verbatim>\<open>transitionend\<close> to remove it.
\<close>

record banner =
  data_event_id :: jsval
  innerHTML :: content
  hidden :: bool
  remove_on_transitionend :: bool

text \<open>A map overlay: the epicentre marker (position, magnitude of its title) or a wave circle
  (centre, radius, stroke opacity, fill opacity).\<close>

datatype map_object =
    Marker "real \<times> real" real
  | Circle "real \<times> real" real real real

text \<open>A view setting of the map: a value the code has set, or the result of
  \<^verbatim>\<open>setFitView\<close> on some overlays, which the map library chooses.\<close>

datatype 'a view_setting = Set_to 'a | Fit_to "handle list"

text \<open>An entry of \<^verbatim>\<open>activeEewAlerts\<close>.\<close>

record alert_entry =
  element :: handle
  timeoutId :: handle

text \<open>An entry of \<^verbatim>\<open>activeWaveAnimations\<close>, as line 589 stores it.\<close>

record wave_entry =
  epicenter :: handle
  pWave :: handle
  sWave :: handle
  animationFrameId :: handle
  lastUpdateTime :: real
  fitViewTimer :: "handle option"

text \<open>
  The variables that one call of \<^verbatim>\<open>addEarthquake\<close> declares and its callback
  \<^verbatim>\<open>animateWaves\<close> reads and assigns (lines 456 to 504). The variable
  \<^verbatim>\<open>fitViewTimer\<close> of the closure is not the field of the registry entry: line 589
  copies its value at that moment.
\<close>

record wave_closure =
  cl_eventId :: jsval
  cl_epicenter :: handle
  cl_pWave :: handle
  cl_sWave :: handle
  pWaveRadius :: real
  sWaveRadius :: real
  cl_lastUpdateTime :: real
  cl_fitViewTimer :: "handle option"

text \<open>What a pending timer does when it fires: the expiry of a banner (lines 413 to 420, after
  600000 ms) or the view fit of a wave animation (lines 546 to 565, after 500 ms).\<close>

datatype timer_action = Expire handle jsval | FitView handle

record state =
  next_handle :: handle
  container :: "handle list"
  elements :: "handle \<Rightarrow> banner option"
  activeEewAlerts :: "(jsval \<times> alert_entry) list"
  activeWaveAnimations :: "(jsval \<times> wave_entry) list"
  timers :: "handle \<Rightarrow> timer_action option"
  frames :: "handle \<Rightarrow> handle option"
  closures :: "handle \<Rightarrow> wave_closure option"
  overlays :: "handle \<Rightarrow> map_object option"
  on_map :: "handle list"
  map_zoom :: "real view_setting"
  map_center :: "(real \<times> real) view_setting"

definition INITIAL_MAP_CENTER :: "real \<times> real" where
  "INITIAL_MAP_CENTER = (104.06, 30.67)"

definition INITIAL_MAP_ZOOM :: real where
  "INITIAL_MAP_ZOOM = 5"

definition ALERT_DISPLAY_DURATION_MS :: real where
  "ALERT_DISPLAY_DURATION_MS = 10 * 60 * 1000"

definition initial_state :: state where
  "initial_state =
     \<lparr>next_handle = 1, container = [], elements = (\<lambda>h. None),
      activeEewAlerts = [], activeWaveAnimations = [],
      timers = (\<lambda>h. None), frames = (\<lambda>h. None), closures = (\<lambda>h. None),
      overlays = (\<lambda>h. None), on_map = [],
      map_zoom = Set_to INITIAL_MAP_ZOOM, map_center = Set_to INITIAL_MAP_CENTER\<rparr>"

subsection \<open>The browser and the map\<close>

definition setTimeout :: "timer_action \<Rightarrow> state \<Rightarrow> handle \<times> state" where
  "setTimeout act s =
     (let t = next_handle s
      in (t, s\<lparr>next_handle := Suc t, timers := (timers s)(t \<mapsto> act)\<rparr>))"

definition clearTimeout :: "handle \<Rightarrow> state \<Rightarrow> state" where
  "clearTimeout t s = s\<lparr>timers := (timers s)(t := None)\<rparr>"

definition requestAnimationFrame :: "handle \<Rightarrow> state \<Rightarrow> handle \<times> state" where
  "requestAnimationFrame c s =
     (let f = next_handle s
      in (f, s\<lparr>next_handle := Suc f, frames := (frames s)(f \<mapsto> c)\<rparr>))"

definition cancelAnimationFrame :: "handle \<Rightarrow> state \<Rightarrow> state" where
  "cancelAnimationFrame f s = s\<lparr>frames := (frames s)(f := None)\<rparr>"

definition map_remove :: "handle list \<Rightarrow> state \<Rightarrow> state" where
  "map_remove hs s = s\<lparr>on_map := filter (\<lambda>h. h \<notin> set hs) (on_map s)\<rparr>"

definition new_overlay :: "map_object \<Rightarrow> state \<Rightarrow> handle \<times> state" where
  "new_overlay ob s =
     (let h = next_handle s
      in (h, s\<lparr>next_handle := Suc h, overlays := (overlays s)(h \<mapsto> ob)\<rparr>))"

definition map_add :: "handle \<Rightarrow> state \<Rightarrow> state" where
  "map_add h s = s\<lparr>on_map := on_map s @ [h]\<rparr>"

text \<open>\<^verbatim>\<open>setRadius\<close> and \<^verbatim>\<open>setOptions\<close> of a circle, lines 531 to 541.\<close>

fun with_radius :: "real \<Rightarrow> real \<Rightarrow> real \<Rightarrow> map_object \<Rightarrow> map_object" where
  "with_radius r so fo (Circle ctr r0 so0 fo0) = Circle ctr r so fo"
| "with_radius r so fo (Marker pos m) = Marker pos m"

definition set_circle :: "handle \<Rightarrow> real \<Rightarrow> real \<Rightarrow> real \<Rightarrow> state \<Rightarrow> state" where
  "set_circle h r so fo s =
     s\<lparr>overlays := (overlays s)(h := map_option (with_radius r so fo) (overlays s h))\<rparr>"

text \<open>\<^verbatim>\<open>classList.add('hidden')\<close> and the listener that removes the element once its
  transition has ended (lines 357 to 361, 414 to 418, 662 to 665).\<close>

definition hide_element :: "handle \<Rightarrow> state \<Rightarrow> state" where
  "hide_element h s =
     s\<lparr>elements := (elements s)(h :=
          map_option (\<lambda>e. e\<lparr>hidden := True, remove_on_transitionend := True\<rparr>)
            (elements s h))\<rparr>"

subsection \<open>Creating a banner\<close>

text \<open>
  \<^verbatim>\<open>createEewAlertElement(data)\<close>, lines 226 to 333: a new element is built, appended
  to the container of the banners (line 331) and returned. \<open>rnd\<close> is the random text
  of line 230.
\<close>

definition createEewAlertElement :: "snapshot \<Rightarrow> string \<Rightarrow> state \<Rightarrow> handle \<times> state" where
  "createEewAlertElement data rnd s =
     (let alertItem = next_handle s
      in (alertItem,
          s\<lparr>next_handle := Suc alertItem,
            elements := (elements s)(alertItem \<mapsto>
              \<lparr>data_event_id = eventIdOf data rnd, innerHTML = alertContent data,
               hidden = False, remove_on_transitionend = False\<rparr>),
            container := container s @ [alertItem]\<rparr>))"

subsection \<open>The wave animation\<close>

definition pWaveSpeed_m_s :: real where
  "pWaveSpeed_m_s = 6000"

definition sWaveSpeed_m_s :: real where
  "sWaveSpeed_m_s = 4000"

definition maxAnimationDuration_s :: real where
  "maxAnimationDuration_s = ALERT_DISPLAY_DURATION_MS / 1000"

definition pWaveMaxRadius :: real where
  "pWaveMaxRadius = pWaveSpeed_m_s * maxAnimationDuration_s"

definition sWaveMaxRadius :: real where
  "sWaveMaxRadius = sWaveSpeed_m_s * maxAnimationDuration_s"

text \<open>
  Lines 443 to 449 of \<^verbatim>\<open>addEarthquake\<close>: an animation already registered for the
  identifier is stopped. The timer that is cleared is the one stored in the entry.
\<close>

definition stop_existing :: "jsval \<Rightarrow> state \<Rightarrow> state" where
  "stop_existing eventId s =
     (case map_of (activeWaveAnimations s) eventId of
        None \<Rightarrow> s
      | Some existingAnimation \<Rightarrow>
          let s1 = cancelAnimationFrame (animationFrameId existingAnimation) s;
              s2 = (case fitViewTimer existingAnimation of
                      Some t \<Rightarrow> clearTimeout t s1
                    | None \<Rightarrow> s1);
              s3 = map_remove [epicenter existingAnimation, pWave existingAnimation,
                               sWave existingAnimation] s2
          in s3\<lparr>activeWaveAnimations := AList.delete eventId (activeWaveAnimations s3)\<rparr>)"

text \<open>
  \<^verbatim>\<open>addEarthquake(lat, lon, magnitude, eventId)\<close>, lines 441 to 590; \<open>tnow\<close> is the
  value of \<^verbatim>\<open>performance.now()\<close> at line 503.
\<close>

definition addEarthquake :: "real \<Rightarrow> real \<Rightarrow> real \<Rightarrow> jsval \<Rightarrow> real \<Rightarrow> state \<Rightarrow> state" where
  "addEarthquake lat lon magnitude eventId tnow s =
     (let s1 = stop_existing eventId s;
          s2 = s1\<lparr>map_center := Set_to (lon, lat), map_zoom := Set_to 8\<rparr>;
          (e, s3) = new_overlay (Marker (lon, lat) magnitude) s2;
          s4 = map_add e s3;
          (p, s5) = new_overlay (Circle (lon, lat) 0 0.8 0.1) s4;
          (w, s6) = new_overlay (Circle (lon, lat) 0 1 0.2) s5;
          s7 = map_add w (map_add p s6);
          c = next_handle s7;
          s8 = s7\<lparr>next_handle := Suc c,
                 closures := (closures s7)(c \<mapsto>
                   \<lparr>cl_eventId = eventId, cl_epicenter = e, cl_pWave = p, cl_sWave = w,
                    pWaveRadius = 0, sWaveRadius = 0, cl_lastUpdateTime = tnow,
                    cl_fitViewTimer = None\<rparr>)\<rparr>;
          (f, s9) = requestAnimationFrame c s8
      in s9\<lparr>activeWaveAnimations :=
             AList.update eventId
               \<lparr>epicenter = e, pWave = p, sWave = w, animationFrameId = f,
                lastUpdateTime = tnow, fitViewTimer = None\<rparr>
               (activeWaveAnimations s9)\<rparr>)"

text \<open>Lines 507 to 529: the radius of a wavefront after a frame, and an opacity for a radius.\<close>

definition advance :: "real \<Rightarrow> real \<Rightarrow> real \<Rightarrow> real \<Rightarrow> real" where
  "advance speed maxRadius r deltaTime = min (r + speed * deltaTime) maxRadius"

definition opacity :: "real \<Rightarrow> real \<Rightarrow> real \<Rightarrow> real" where
  "opacity initial r maxRadius = max 0 (initial * (1 - (r / maxRadius)))"

text \<open>
  \<^verbatim>\<open>animateWaves(currentTime)\<close> of the closure \<open>c\<close>, lines 506 to 583. When the entry
  of the identifier is missing at line 571, the assignment raises and the callback ends
  with the frame requested.
\<close>

definition animateWaves :: "handle \<Rightarrow> real \<Rightarrow> state \<Rightarrow> state" where
  "animateWaves c currentTime s =
     (case closures s c of
        None \<Rightarrow> s
      | Some v \<Rightarrow>
          let deltaTime = (currentTime - cl_lastUpdateTime v) / 1000;
              pR = advance pWaveSpeed_m_s pWaveMaxRadius (pWaveRadius v) deltaTime;
              sR = advance sWaveSpeed_m_s sWaveMaxRadius (sWaveRadius v) deltaTime;
              s1 = set_circle (cl_pWave v) pR
                     (opacity 0.8 pR pWaveMaxRadius) (opacity 0.1 pR pWaveMaxRadius) s;
              s2 = set_circle (cl_sWave v) sR
                     (opacity 1 sR sWaveMaxRadius) (opacity 0.2 sR sWaveMaxRadius) s1;
              (ft, s3) = (case cl_fitViewTimer v of
                            None \<Rightarrow> (let (t, s') = setTimeout (FitView c) s2 in (Some t, s'))
                          | Some t \<Rightarrow> (Some t, s2));
              s4 = s3\<lparr>closures := (closures s3)(c \<mapsto>
                        v\<lparr>pWaveRadius := pR, sWaveRadius := sR,
                          cl_lastUpdateTime := currentTime, cl_fitViewTimer := ft\<rparr>)\<rparr>
          in if pR < pWaveMaxRadius \<or> sR < sWaveMaxRadius
             then
               (let (f, s5) = requestAnimationFrame c s4
                in s5\<lparr>activeWaveAnimations :=
                       AList.map_entry (cl_eventId v) (\<lambda>a. a\<lparr>animationFrameId := f\<rparr>)
                         (activeWaveAnimations s5)\<rparr>)
             else
               (let s5 = (case ft of Some t \<Rightarrow> clearTimeout t s4 | None \<Rightarrow> s4);
                    s6 = map_remove [cl_epicenter v, cl_pWave v, cl_sWave v] s5;
                    s7 = s6\<lparr>activeWaveAnimations :=
                              AList.delete (cl_eventId v) (activeWaveAnimations s6)\<rparr>
                in s7\<lparr>map_zoom := Set_to INITIAL_MAP_ZOOM,
                      map_center := Set_to INITIAL_MAP_CENTER\<rparr>))"

subsection \<open>Showing, updating and ending an alert\<close>

text \<open>Lines 342 to 346.\<close>

definition isCancelReport :: "snapshot \<Rightarrow> bool" where
  "isCancelReport data = (src_type data = jma_eew \<and> isCancel data)"

definition isFinalReport :: "snapshot \<Rightarrow> bool" where
  "isFinalReport data =
     ((src_type data = jma_eew \<and> isFinal data) \<or> (src_type data = fj_eew \<and> isFinal data))"

text \<open>
  The removal of a banner, lines 355 to 362, and again lines 661 to 666 of the polling
  callback, which do the same on the entry \<open>a\<close> of the identifier.
\<close>

definition remove_alert :: "jsval \<Rightarrow> alert_entry \<Rightarrow> state \<Rightarrow> state" where
  "remove_alert eventId a s =
     (let s1 = clearTimeout (timeoutId a) s;
          s2 = hide_element (element a) s1
      in s2\<lparr>activeEewAlerts := AList.delete eventId (activeEewAlerts s2)\<rparr>)"

text \<open>
  The removal of a wave animation, lines 365 to 374, and again lines 669 to 678. The
  timer that is cleared is the field \<^verbatim>\<open>fitViewTimer\<close> of the registry entry.
\<close>

definition remove_wave :: "jsval \<Rightarrow> state \<Rightarrow> state" where
  "remove_wave eventId s =
     (case map_of (activeWaveAnimations s) eventId of
        None \<Rightarrow> s
      | Some a \<Rightarrow>
          let s1 = cancelAnimationFrame (animationFrameId a) s;
              s2 = (case fitViewTimer a of Some t \<Rightarrow> clearTimeout t s1 | None \<Rightarrow> s1);
              s3 = map_remove [epicenter a, pWave a, sWave a] s2;
              s4 = s3\<lparr>activeWaveAnimations := AList.delete eventId (activeWaveAnimations s3)\<rparr>
          in s4\<lparr>map_zoom := Set_to INITIAL_MAP_ZOOM, map_center := Set_to INITIAL_MAP_CENTER\<rparr>)"

text \<open>Lines 378 to 389: the coordinates and the magnitude are parsed for the five known
  types and stay \<^verbatim>\<open>undefined\<close> otherwise.\<close>

definition parsed_lat_lon_mag :: "snapshot \<Rightarrow> (numval \<times> numval \<times> numval) option" where
  "parsed_lat_lon_mag data =
     (if src_type data = sc_eew \<or> src_type data = fj_eew \<or> src_type data = cwa_eew
         \<or> src_type data = test_eew
      then Some (parseFloat (field_num (Latitude data)), parseFloat (field_num (Longitude data)),
                 parseFloat (field_num (Magunitude data)))
      else if src_type data = jma_eew
      then Some (parseFloat (field_num (Latitude data)), parseFloat (field_num (Longitude data)),
                 parseFloat (field_num (Magunitude data)))
      else None)"

text \<open>The truthiness of a number: \<^verbatim>\<open>NaN\<close> and 0 are falsy.\<close>

fun truthy_num :: "numval \<Rightarrow> bool" where
  "truthy_num (Num x) = (x \<noteq> 0)"
| "truthy_num Null = False"
| "truthy_num NaN = False"

text \<open>The test of line 392.\<close>

definition valid_lat_lon_mag :: "(numval \<times> numval \<times> numval) option \<Rightarrow> bool" where
  "valid_lat_lon_mag v =
     (case v of
        None \<Rightarrow> False
      | Some (lat, lon, magnitude) \<Rightarrow>
          truthy_num lat \<and> truthy_num lon \<and> truthy_num magnitude
          \<and> \<not> isNaN lat \<and> \<not> isNaN lon \<and> \<not> isNaN magnitude)"

text \<open>What one call of \<^verbatim>\<open>displayEew\<close> reads from the clock and the random generator:
  the random text of line 350, that of line 230, and \<^verbatim>\<open>performance.now()\<close>.\<close>

record env =
  rnd_id :: string
  rnd_attr :: string
  now :: real

text \<open>
  Lines 395 to 410: the banner of the identifier. For a registered identifier the old
  timer is cleared, \<^verbatim>\<open>createEewAlertElement(data)\<close> is called for its content, and the
  content is copied into the registered element, which is shown again.
\<close>

definition show_banner :: "snapshot \<Rightarrow> env \<Rightarrow> jsval \<Rightarrow> state \<Rightarrow> handle \<times> state" where
  "show_banner data ev eventId s =
     (case map_of (activeEewAlerts s) eventId of
        Some existingAlert \<Rightarrow>
          let alertElement = element existingAlert;
              s1 = clearTimeout (timeoutId existingAlert) s;
              (created, s2) = createEewAlertElement data (rnd_attr ev) s1;
              html = map_option innerHTML (elements s2 created)
          in (alertElement,
              s2\<lparr>elements := (elements s2)(alertElement :=
                    map_option
                      (\<lambda>e. e\<lparr>innerHTML := (case html of Some h \<Rightarrow> h | None \<Rightarrow> innerHTML e),
                             hidden := False\<rparr>)
                      (elements s2 alertElement))\<rparr>)
      | None \<Rightarrow> createEewAlertElement data (rnd_attr ev) s)"

text \<open>\<^verbatim>\<open>displayEew(data)\<close>, lines 340 to 432.\<close>

definition displayEew :: "snapshot \<Rightarrow> env \<Rightarrow> state \<Rightarrow> state" where
  "displayEew data ev s =
     (let eventId = eventIdOf data (rnd_id ev)
      in if isCancelReport data \<or> isFinalReport data
         then
           (let s1 = (case map_of (activeEewAlerts s) eventId of
                        Some a \<Rightarrow> remove_alert eventId a s
                      | None \<Rightarrow> s)
            in remove_wave eventId s1)
         else if valid_lat_lon_mag (parsed_lat_lon_mag data)
         then
           (case parsed_lat_lon_mag data of
              Some (lat, lon, magnitude) \<Rightarrow>
                let (alertElement, s1) = show_banner data ev eventId s;
                    (newTimeoutId, s2) = setTimeout (Expire alertElement eventId) s1;
                    s3 = s2\<lparr>activeEewAlerts :=
                             AList.update eventId
                               \<lparr>element = alertElement, timeoutId = newTimeoutId\<rparr>
                               (activeEewAlerts s2)\<rparr>
                in addEarthquake (toNumber lat) (toNumber lon) (toNumber magnitude) eventId
                     (now ev) s3
            | None \<Rightarrow> s)
         else s)"

subsection \<open>Callbacks of the browser\<close>

text \<open>The browser runs the callback of a pending animation frame at time \<open>currentTime\<close>.\<close>

definition frame_fires :: "handle \<Rightarrow> real \<Rightarrow> state \<Rightarrow> state" where
  "frame_fires f currentTime s =
     (case frames s f of
        None \<Rightarrow> s
      | Some c \<Rightarrow> animateWaves c currentTime (s\<lparr>frames := (frames s)(f := None)\<rparr>))"

text \<open>
  The browser runs the callback of a pending timer: the expiry of lines 413 to 420, or
  the view fit of lines 546 to 565 (the circles of the map library report their bounds,
  so \<^verbatim>\<open>setFitView\<close> is called).
\<close>

definition timer_fires :: "handle \<Rightarrow> state \<Rightarrow> state" where
  "timer_fires t s =
     (case timers s t of
        None \<Rightarrow> s
      | Some (Expire alertElement eventId) \<Rightarrow>
          (let s1 = hide_element alertElement (s\<lparr>timers := (timers s)(t := None)\<rparr>)
           in s1\<lparr>activeEewAlerts := AList.delete eventId (activeEewAlerts s1)\<rparr>)
      | Some (FitView c) \<Rightarrow>
          (let s1 = s\<lparr>timers := (timers s)(t := None)\<rparr>
           in case closures s1 c of
                None \<Rightarrow> s1
              | Some v \<Rightarrow>
                  s1\<lparr>map_zoom := Fit_to [cl_epicenter v, cl_pWave v, cl_sWave v],
                     map_center := Fit_to [cl_epicenter v, cl_pWave v, cl_sWave v],
                     closures := (closures s1)(c \<mapsto> v\<lparr>cl_fitViewTimer := None\<rparr>)\<rparr>))"

text \<open>The transition of a hidden banner ends: the listener removes the element.\<close>

definition transitionend :: "handle \<Rightarrow> state \<Rightarrow> state" where
  "transitionend h s =
     (case elements s h of
        None \<Rightarrow> s
      | Some e \<Rightarrow>
          if remove_on_transitionend e
          then s\<lparr>container := removeAll h (container s),
                 elements := (elements s)(h \<mapsto> e\<lparr>remove_on_transitionend := False\<rparr>)\<rparr>
          else s)"

subsection \<open>The test button and the polling cycle\<close>

text \<open>
  Lines 595 to 615: the click handler gives the chosen test location a fresh
  \<^verbatim>\<open>EventID\<close> that starts with \<^verbatim>\<open>test-\<close> and displays it. \<open>randomLocation\<close> is the
  chosen entry of \<^verbatim>\<open>testLocations\<close> and \<open>rnd\<close> the random text of line 610.
\<close>

definition testEewClick :: "snapshot \<Rightarrow> string \<Rightarrow> env \<Rightarrow> state \<Rightarrow> state" where
  "testEewClick randomLocation rnd ev s =
     displayEew (randomLocation\<lparr>EventID := VStr (''test-'' @ rnd)\<rparr>) ev s"

text \<open>\<^verbatim>\<open>data.EventID || data.ID || data.Serial\<close>, lines 649 and 650.\<close>

definition cycle_id :: "snapshot \<Rightarrow> jsval" where
  "cycle_id data = js_or (js_or (EventID data) (ID data)) (Serial data)"

text \<open>
  Lines 646 to 653: the results of the four feeds are processed in order; a failed
  fetch is \<open>None\<close>. Each result comes with what its call of \<^verbatim>\<open>displayEew\<close> reads from
  the clock and the random generator.
\<close>

fun receivedEventIdsThisCycle :: "(snapshot option \<times> env) list \<Rightarrow> jsval list" where
  "receivedEventIdsThisCycle [] = []"
| "receivedEventIdsThisCycle ((None, ev) # rs) = receivedEventIdsThisCycle rs"
| "receivedEventIdsThisCycle ((Some data, ev) # rs) =
     (if truthy (cycle_id data) then cycle_id data # receivedEventIdsThisCycle rs
      else receivedEventIdsThisCycle rs)"

fun process_results :: "(snapshot option \<times> env) list \<Rightarrow> state \<Rightarrow> state" where
  "process_results [] s = s"
| "process_results ((None, ev) # rs) s = process_results rs s"
| "process_results ((Some data, ev) # rs) s =
     (if truthy (cycle_id data) then process_results rs (displayEew data ev s)
      else process_results rs s)"

text \<open>
  \<^verbatim>\<open>eventId.startsWith('test-')\<close>, line 659. Only a string has the method: for a
  key of any other kind the call raises a \<^verbatim>\<open>TypeError\<close>, which is \<open>None\<close> here.
\<close>

fun startsWith_test :: "jsval \<Rightarrow> bool option" where
  "startsWith_test (VStr s) = Some (take 5 s = ''test-'')"
| "startsWith_test (VNum x) = None"
| "startsWith_test (VBool b) = None"
| "startsWith_test VUndefined = None"
| "startsWith_test VNull = None"

text \<open>
  The body of the callback of \<^verbatim>\<open>activeEewAlerts.forEach\<close> after line 659, lines 660
  to 679, with the value \<open>isTestAlert\<close> of line 659.
\<close>

definition evict_entry :: "jsval list \<Rightarrow> jsval \<times> alert_entry \<Rightarrow> bool \<Rightarrow> state \<Rightarrow> state" where
  "evict_entry received kv isTestAlert s =
     (case kv of (eventId, a) \<Rightarrow>
        if eventId \<notin> set received \<and> \<not> isTestAlert
        then remove_wave eventId (remove_alert eventId a s)
        else s)"

text \<open>How a callback ends: it runs to its end, or an exception leaves it.\<close>

datatype outcome = Completed | Raised_TypeError

text \<open>
  \<^verbatim>\<open>forEach\<close>, lines 656 to 680, visits the entries in the order of insertion; a
  callback deletes no entry but the one it visits, so the entries visited are those
  present at the start. An exception in a callback ends the loop, and what was changed
  before stays changed.
\<close>

fun evict_loop :: "jsval list \<Rightarrow> (jsval \<times> alert_entry) list \<Rightarrow> state \<Rightarrow> outcome \<times> state" where
  "evict_loop received [] s = (Completed, s)"
| "evict_loop received (kv # kvs) s =
     (case startsWith_test (fst kv) of
        None \<Rightarrow> (Raised_TypeError, s)
      | Some isTestAlert \<Rightarrow> evict_loop received kvs (evict_entry received kv isTestAlert s))"

definition evict_missing :: "jsval list \<Rightarrow> state \<Rightarrow> outcome \<times> state" where
  "evict_missing received s = evict_loop received (activeEewAlerts s) s"

text \<open>
  The callback of \<^verbatim>\<open>setInterval\<close>, lines 640 to 680: how it ends, and the page it
  leaves (the refresh of the earthquake list that follows touches none of this state).
\<close>

definition pollCycle :: "(snapshot option \<times> env) list \<Rightarrow> state \<Rightarrow> outcome \<times> state" where
  "pollCycle eewResults s =
     evict_missing (receivedEventIdsThisCycle eewResults) (process_results eewResults s)"

subsection \<open>The pages that can arise\<close>

text \<open>
  The page starts in its initial state; then reports are displayed (by the initial
  load or the test button), the browser runs frame callbacks, timers and transition
  listeners, and polling cycles are processed, in any order and with any arguments.
\<close>

inductive reachable :: "state \<Rightarrow> bool" where
  start: "reachable initial_state"
| display: "reachable s \<Longrightarrow> reachable (displayEew data ev s)"
| frame: "reachable s \<Longrightarrow> reachable (frame_fires f currentTime s)"
| timer: "reachable s \<Longrightarrow> reachable (timer_fires t s)"
| transition: "reachable s \<Longrightarrow> reachable (transitionend h s)"
| poll: "reachable s \<Longrightarrow> reachable (snd (pollCycle eewResults s))"

text \<open>
  The closure of a wave animation is well formed: its radii are within their caps, and
  its two circles are distinct circles that exist on the page.
\<close>

fun is_circle :: "map_object option \<Rightarrow> bool" where
  "is_circle (Some (Circle ctr r so fo)) = True"
| "is_circle (Some (Marker pos m)) = False"
| "is_circle None = False"

definition closure_ok :: "state \<Rightarrow> wave_closure \<Rightarrow> bool" where
  "closure_ok s v =
     (pWaveRadius v \<le> pWaveMaxRadius \<and> sWaveRadius v \<le> sWaveMaxRadius
      \<and> cl_pWave v \<noteq> cl_sWave v
      \<and> cl_pWave v < next_handle s \<and> cl_sWave v < next_handle s
      \<and> is_circle (overlays s (cl_pWave v)) \<and> is_circle (overlays s (cl_sWave v)))"

definition waves_ok :: "state \<Rightarrow> bool" where
  "waves_ok s = (\<forall>c v. closures s c = Some v \<longrightarrow> closure_ok s v)"

section \<open>Example inputs\<close>

text \<open>
  The report of the end-to-end scenario of the specification: identifier E1, latitude
  31.0, longitude 103.0, magnitude 6.8, depth 20, from the Sichuan feed.
\<close>

definition report_E1 :: snapshot where
  "report_E1 =
     \<lparr>src_type = sc_eew, EventID = VStr ''E1'', ID = VUndefined, Serial = VUndefined,
      Latitude = Some 31.0, Longitude = Some 103.0, Magunitude = Some 6.8, Depth = Some 20,
      MaxIntensity = VStr ''7'', ReportNum = VNum 1, HypoCenter = VStr ''Sichuan Aba'',
      Hypocenter = VUndefined, OriginTime = VStr ''2025/06/15 08:00:00'',
      loc_name = VUndefined, IssueSource = VUndefined, isCancel = False, isFinal = False\<rparr>"

text \<open>A report of the JMA feed for the identifier J1, and the report that cancels it.\<close>

definition report_J1 :: snapshot where
  "report_J1 =
     \<lparr>src_type = jma_eew, EventID = VStr ''J1'', ID = VUndefined, Serial = VNum 1,
      Latitude = Some 36.0, Longitude = Some 141.0, Magunitude = Some 7.3, Depth = Some 40,
      MaxIntensity = VStr ''6'', ReportNum = VUndefined, HypoCenter = VUndefined,
      Hypocenter = VStr ''Fukushima'', OriginTime = VStr ''2025/06/15 11:44:00'',
      loc_name = VUndefined, IssueSource = VStr ''JMA'', isCancel = False, isFinal = False\<rparr>"

definition cancel_J1 :: snapshot where
  "cancel_J1 = report_J1\<lparr>Serial := VNum 2, isCancel := True\<rparr>"

text \<open>
  The Fujian entry of \<^verbatim>\<open>testLocations\<close>, line 599, with \<open>n\<close> for its random report
  number (its place name is Chinese text in the source).
\<close>

definition testLocation_Fujian :: "jsval \<Rightarrow> snapshot" where
  "testLocation_Fujian n =
     \<lparr>src_type = fj_eew, EventID = VUndefined, ID = VUndefined, Serial = VUndefined,
      Latitude = Some 25.0, Longitude = Some 119.0, Magunitude = Some 5.5, Depth = Some 15,
      MaxIntensity = VStr ''5'', ReportNum = n, HypoCenter = VStr ''Fujian Quanzhou'',
      Hypocenter = VUndefined, OriginTime = VStr ''2025/06/15 09:15:30'',
      loc_name = VStr ''Fujian'', IssueSource = VUndefined, isCancel = False, isFinal = False\<rparr>"

text \<open>A later report of the same event: the second report, with magnitude 7.0.\<close>

definition report_E1_second :: snapshot where
  "report_E1_second = report_E1\<lparr>ReportNum := VNum 2, Magunitude := Some 7.0\<rparr>"

definition env0 :: env where
  "env0 = \<lparr>rnd_id = ''r1'', rnd_attr = ''r2'', now = 0\<rparr>"

text \<open>A call of \<^verbatim>\<open>displayEew\<close> at 1000 ms on the clock of \<^verbatim>\<open>performance.now()\<close>.\<close>

definition env1 :: env where
  "env1 = \<lparr>rnd_id = ''r1'', rnd_attr = ''r2'', now = 1000\<rparr>"

text \<open>
  A report of a feed that carries a \<^verbatim>\<open>Serial\<close> but neither \<^verbatim>\<open>EventID\<close> nor
  \<^verbatim>\<open>ID\<close>, and a report whose only identifier is the number 7 in \<^verbatim>\<open>ID\<close>.
\<close>

definition report_serial_only :: snapshot where
  "report_serial_only = report_J1\<lparr>EventID := VUndefined\<rparr>"

definition report_numeric_id :: snapshot where
  "report_numeric_id = report_E1\<lparr>EventID := VUndefined, ID := VNum 7\<rparr>"

text \<open>A polling cycle in which all four fetches fail.\<close>

definition no_results :: "(snapshot option \<times> env) list" where
  "no_results = [(None, env0), (None, env0), (None, env0), (None, env0)]"

section \<open>Properties of the intensity estimator\<close>

lemma log10_10: "log 10 (10::real) = 1"
  by simp

lemma estimateIntensity_Num:
  "estimateIntensity (Num m) (Num d) =
     (if m < 3 then 0
      else max 0 (min 12 (round (1.5 * m + 3 - 3.5 * log 10 (if d \<le> 0 then 10 else d)))))"
  by (simp add: estimateIntensity_def Let_def)

text \<open>
  Claim C2, as the specification states it: the estimate for magnitude 6.8 and depth 10
  is 7. The code computes \<open>round (10.2 + 3 - 3.5) = round 9.7 = 10\<close>, so the stated
  value is refuted.
\<close>

theorem estimate_68_10_not_7: "estimateIntensity (Num 6.8) (Num 10) \<noteq> 7"
  by (simp add: estimateIntensity_Num round_def)

text \<open>
  Claim C2, amended: the intensity estimator applied to magnitude 6.8 and depth 10
  returns 10.
\<close>

theorem estimate_68_10_is_10: "estimateIntensity (Num 6.8) (Num 10) = 10"
  by (simp add: estimateIntensity_Num round_def)



section \<open>Properties of the banner content\<close>

lemma log10_15_bounds: "11 / 10 < log 10 (15::real)" "log 10 (15::real) < 5 / 4"
proof -
  have a: "log 10 ((15::real) ^ 10) = 10 * log 10 15"
    using log_nat_power [of "15::real" 10 10] by simp
  have "log 10 ((10::real) ^ 11) < log 10 (15 ^ 10)"
    by (subst log_less_cancel_iff) simp_all
  moreover have "log 10 ((10::real) ^ 11) = 11"
    using log_nat_power [of "10::real" 10 11] by simp
  ultimately show "11 / 10 < log 10 (15::real)" using a by linarith
  have b: "log 10 ((15::real) ^ 4) = 4 * log 10 15"
    using log_nat_power [of "15::real" 10 4] by simp
  have "log 10 ((15::real) ^ 4) < log 10 (10 ^ 5)"
    by (subst log_less_cancel_iff) simp_all
  moreover have "log 10 ((10::real) ^ 5) = 5"
    using log_nat_power [of "10::real" 10 5] by simp
  ultimately show "log 10 (15::real) < 5 / 4" using b by linarith
qed

lemma estimate_55_15: "estimateIntensity (Num (11 / 2)) (Num 15) = 7"
proof -
  have "round (1.5 * 5.5 + 3 - 3.5 * log 10 (15::real)) = 7"
    unfolding round_def using log10_15_bounds by (intro floor_unique) simp_all
  then show ?thesis by (simp add: estimateIntensity_Num)
qed

lemma estimate_55_10: "estimateIntensity (Num (11 / 2)) (Num 10) = 8"
  by (simp add: estimateIntensity_Num round_def)

lemmas content_defs =
  alertContent_def parse_by_type_def shown_intensity_def initial_vars_def Let_def

text \<open>
  Claim C9, as stated: the intensity shown is the estimate from the magnitude and the
  depth of the snapshot whenever both are numbers. The Fujian report that the test
  button of the repository builds carries magnitude 5.5 and depth 15: the banner shows
  8, the estimate for depth 10, and the estimate for depth 15 is 7.
\<close>

theorem fujian_depth_ignored:
  "c_intensity (alertContent (testLocation_Fujian (VNum 3))) = VNum 8
   \<and> Magunitude (testLocation_Fujian (VNum 3)) = Some 5.5
   \<and> Depth (testLocation_Fujian (VNum 3)) = Some 15
   \<and> estimateIntensity (Num 5.5) (Num 15) = 7
   \<and> c_intensity (alertContent (testLocation_Fujian (VNum 3)))
       \<noteq> VNum (of_int (estimateIntensity (Num 5.5) (Num 15)))"
proof -
  have "estimateIntensity (Num 5.5) (Num 15) = 7"
    using estimate_55_15 by simp
  then show ?thesis
    by (simp add: content_defs testLocation_Fujian_def estimate_55_10)
qed

text \<open>
  Claim C9, amended: for every snapshot of one of the five known types, the intensity
  shown is the estimate recomputed from the magnitude and the depth whenever both are
  numbers, where the depth of a Fujian report is always the default 10 whatever the
  snapshot carries, and this also when the feed supplies its own intensity; the value of
  the feed (none for a Fujian report), or \<^verbatim>\<open>'-'\<close> when that value is missing, is
  shown only when the magnitude or the depth is missing.
\<close>

theorem shown_intensity_recomputed:
  assumes "src_type data \<noteq> other_type"
  shows "c_intensity (alertContent data) =
     (case (Magunitude data, if src_type data = fj_eew then Some 10 else Depth data) of
        (Some m, Some d) \<Rightarrow> VNum (of_int (estimateIntensity (Num m) (Num d)))
      | _ \<Rightarrow>
          (let v = (if src_type data = fj_eew then VStr ''N/A'' else MaxIntensity data)
           in if v = VStr ''N/A'' \<or> v = VUndefined \<or> v = VNull then VStr ''-'' else v))"
  using assms
  by (cases "src_type data"; cases "Magunitude data"; cases "Depth data")
     (simp_all add: content_defs)

theorem shown_intensity_recomputed_witness:
  "src_type report_E1 \<noteq> other_type
   \<and> c_intensity (alertContent report_E1) = VNum (of_int (estimateIntensity (Num 6.8) (Num 20)))
   \<and> c_intensity (alertContent (report_E1\<lparr>Depth := None\<rparr>)) = VStr ''7''"
proof -
  have a: "src_type report_E1 \<noteq> other_type"
    by (simp add: report_E1_def)
  have b: "src_type (report_E1\<lparr>Depth := None\<rparr>) \<noteq> other_type"
    by (simp add: report_E1_def)
  show ?thesis
    using a shown_intensity_recomputed [OF a] shown_intensity_recomputed [OF b]
    by (simp add: report_E1_def)
qed

section \<open>Properties of the reconciler\<close>

lemmas removal_defs =
  remove_wave_def remove_alert_def clearTimeout_def hide_element_def
  cancelAnimationFrame_def map_remove_def Let_def

text \<open>
  Claim C10: the test of line 392 uses truthiness, so a snapshot whose latitude,
  longitude or magnitude is exactly 0 is treated as invalid. Unless it is a cancel or
  final report, \<^verbatim>\<open>displayEew\<close> leaves the state as it is: no alert is created or
  updated and no wave animation is started. In every case it creates nothing: no handle
  is taken, the container and the closures of the wave animations stay as they are.
\<close>

theorem zero_field_is_invalid:
  assumes "Latitude data = Some 0 \<or> Longitude data = Some 0 \<or> Magunitude data = Some 0"
  shows "\<not> valid_lat_lon_mag (parsed_lat_lon_mag data)
     \<and> (\<not> isCancelReport data \<and> \<not> isFinalReport data \<longrightarrow> displayEew data ev s = s)
     \<and> next_handle (displayEew data ev s) = next_handle s
     \<and> container (displayEew data ev s) = container s
     \<and> closures (displayEew data ev s) = closures s"
proof -
  have inv: "\<not> valid_lat_lon_mag (parsed_lat_lon_mag data)"
    using assms by (auto simp: valid_lat_lon_mag_def parsed_lat_lon_mag_def)
  then have "\<not> isCancelReport data \<and> \<not> isFinalReport data \<longrightarrow> displayEew data ev s = s"
    by (simp add: displayEew_def)
  moreover have "next_handle (displayEew data ev s) = next_handle s"
    using inv by (simp add: displayEew_def removal_defs split: option.splits)
  moreover have "container (displayEew data ev s) = container s"
    using inv by (simp add: displayEew_def removal_defs split: option.splits)
  moreover have "closures (displayEew data ev s) = closures s"
    using inv by (simp add: displayEew_def removal_defs split: option.splits)
  ultimately show ?thesis using inv by blast
qed

theorem zero_field_is_invalid_witness:
  "Longitude (report_E1\<lparr>Longitude := Some 0\<rparr>) = Some 0
   \<and> \<not> isCancelReport (report_E1\<lparr>Longitude := Some 0\<rparr>)
   \<and> \<not> isFinalReport (report_E1\<lparr>Longitude := Some 0\<rparr>)
   \<and> displayEew (report_E1\<lparr>Longitude := Some 0\<rparr>) env0 initial_state = initial_state
   \<and> activeEewAlerts (displayEew report_E1 env0 initial_state) \<noteq> []"
proof -
  have a: "Latitude (report_E1\<lparr>Longitude := Some 0\<rparr>) = Some 0
     \<or> Longitude (report_E1\<lparr>Longitude := Some 0\<rparr>) = Some 0
     \<or> Magunitude (report_E1\<lparr>Longitude := Some 0\<rparr>) = Some 0"
    by simp
  have b: "\<not> isCancelReport (report_E1\<lparr>Longitude := Some 0\<rparr>)
     \<and> \<not> isFinalReport (report_E1\<lparr>Longitude := Some 0\<rparr>)"
    by (simp add: isCancelReport_def isFinalReport_def report_E1_def)
  have c: "activeEewAlerts (displayEew report_E1 env0 initial_state) \<noteq> []"
    by (simp add: displayEew_def show_banner_def createEewAlertElement_def
          addEarthquake_def stop_existing_def setTimeout_def requestAnimationFrame_def new_overlay_def
          map_add_def eventIdOf_def js_or_def isCancelReport_def isFinalReport_def
          valid_lat_lon_mag_def parsed_lat_lon_mag_def initial_state_def report_E1_def
          env0_def Let_def)
  show ?thesis
    using zero_field_is_invalid [OF a, of env0 initial_state] b c by simp
qed

section \<open>Properties of the wave animation\<close>

lemma wave_caps: "pWaveMaxRadius = 6000 * 600" "sWaveMaxRadius = 4000 * 600"
  by (simp_all add: pWaveMaxRadius_def sWaveMaxRadius_def pWaveSpeed_m_s_def
        sWaveSpeed_m_s_def maxAnimationDuration_s_def ALERT_DISPLAY_DURATION_MS_def)

lemma advance_mono:
  "0 \<le> speed \<Longrightarrow> 0 \<le> dt \<Longrightarrow> r \<le> cap \<Longrightarrow> r \<le> advance speed cap r dt"
  by (simp add: advance_def min_def)

lemma advance_le: "advance speed cap r dt \<le> cap"
  by (simp add: advance_def)

lemma opacity_zero_iff:
  assumes i: "0 < i" and c: "0 < cap" and r: "r \<le> cap"
  shows "opacity i r cap = 0 \<longleftrightarrow> r = cap"
proof -
  have "r / cap \<le> 1" using c r by simp
  then have nn: "0 \<le> i * (1 - r / cap)" using i by simp
  have "i * (1 - r / cap) = 0 \<longleftrightarrow> r = cap" using i c by (auto simp: field_simps)
  with nn show ?thesis by (simp add: opacity_def max_def)
qed

lemmas frame_defs =
  animateWaves_def Let_def set_circle_def setTimeout_def clearTimeout_def
  requestAnimationFrame_def map_remove_def


text \<open>One frame of a well-formed closure.\<close>

lemma frame_radius_and_opacity:
  assumes cl: "closures s c = Some v"
    and inv: "pWaveRadius v \<le> pWaveMaxRadius" "sWaveRadius v \<le> sWaveMaxRadius"
    and circles: "overlays s (cl_pWave v) = Some (Circle pc pr pso pfo)"
      "overlays s (cl_sWave v) = Some (Circle sc sr sso sfo)" "cl_pWave v \<noteq> cl_sWave v"
  shows "\<exists>v'. closures (animateWaves c currentTime s) c = Some v' \<and>
     (cl_lastUpdateTime v \<le> currentTime \<longrightarrow>
        pWaveRadius v \<le> pWaveRadius v' \<and> sWaveRadius v \<le> sWaveRadius v') \<and>
     pWaveRadius v' \<le> 6000 * 600 \<and> sWaveRadius v' \<le> 4000 * 600 \<and>
     overlays (animateWaves c currentTime s) (cl_pWave v) =
       Some (Circle pc (pWaveRadius v')
               (max 0 (0.8 * (1 - pWaveRadius v' / (6000 * 600))))
               (max 0 (0.1 * (1 - pWaveRadius v' / (6000 * 600))))) \<and>
     overlays (animateWaves c currentTime s) (cl_sWave v) =
       Some (Circle sc (sWaveRadius v')
               (max 0 (1 * (1 - sWaveRadius v' / (4000 * 600))))
               (max 0 (0.2 * (1 - sWaveRadius v' / (4000 * 600))))) \<and>
     (max 0 (0.8 * (1 - pWaveRadius v' / (6000 * 600))) = 0
        \<longleftrightarrow> pWaveRadius v' = 6000 * 600) \<and>
     (max 0 (0.1 * (1 - pWaveRadius v' / (6000 * 600))) = 0
        \<longleftrightarrow> pWaveRadius v' = 6000 * 600) \<and>
     (max 0 (1 * (1 - sWaveRadius v' / (4000 * 600))) = 0
        \<longleftrightarrow> sWaveRadius v' = 4000 * 600) \<and>
     (max 0 (0.2 * (1 - sWaveRadius v' / (4000 * 600))) = 0
        \<longleftrightarrow> sWaveRadius v' = 4000 * 600)"
proof -
  define dt where "dt = (currentTime - cl_lastUpdateTime v) / 1000"
  define pR where "pR = advance pWaveSpeed_m_s pWaveMaxRadius (pWaveRadius v) dt"
  define sR where "sR = advance sWaveSpeed_m_s sWaveMaxRadius (sWaveRadius v) dt"
  have p1: "pWaveRadius v \<le> pR" if "cl_lastUpdateTime v \<le> currentTime"
    unfolding pR_def using that inv(1)
    by (intro advance_mono) (simp_all add: pWaveSpeed_m_s_def dt_def)
  have s1: "sWaveRadius v \<le> sR" if "cl_lastUpdateTime v \<le> currentTime"
    unfolding sR_def using that inv(2)
    by (intro advance_mono) (simp_all add: sWaveSpeed_m_s_def dt_def)
  have p2: "pR \<le> 6000 * 600"
    using advance_le [of pWaveSpeed_m_s pWaveMaxRadius "pWaveRadius v" dt]
    by (simp add: pR_def wave_caps)
  have s2: "sR \<le> 4000 * 600"
    using advance_le [of sWaveSpeed_m_s sWaveMaxRadius "sWaveRadius v" dt]
    by (simp add: sR_def wave_caps)
  have "\<exists>v'. closures (animateWaves c currentTime s) c = Some v'
       \<and> pWaveRadius v' = pR \<and> sWaveRadius v' = sR"
    using cl by (simp add: frame_defs pR_def sR_def dt_def split: option.splits prod.splits)
  then obtain v' where v': "closures (animateWaves c currentTime s) c = Some v'"
    "pWaveRadius v' = pR" "sWaveRadius v' = sR" by blast
  have op: "overlays (animateWaves c currentTime s) (cl_pWave v) =
       Some (Circle pc pR (opacity 0.8 pR pWaveMaxRadius) (opacity 0.1 pR pWaveMaxRadius))"
    using cl circles
    by (simp add: frame_defs pR_def sR_def dt_def split: option.splits prod.splits)
  have os: "overlays (animateWaves c currentTime s) (cl_sWave v) =
       Some (Circle sc sR (opacity 1 sR sWaveMaxRadius) (opacity 0.2 sR sWaveMaxRadius))"
    using cl circles
    by (simp add: frame_defs pR_def sR_def dt_def split: option.splits prod.splits)
  have z1: "opacity 0.8 pR (6000 * 600) = 0 \<longleftrightarrow> pR = 6000 * 600"
    using p2 by (intro opacity_zero_iff) simp_all
  have z2: "opacity 0.1 pR (6000 * 600) = 0 \<longleftrightarrow> pR = 6000 * 600"
    using p2 by (intro opacity_zero_iff) simp_all
  have z3: "opacity 1 sR (4000 * 600) = 0 \<longleftrightarrow> sR = 4000 * 600"
    using s2 by (intro opacity_zero_iff) simp_all
  have z4: "opacity 0.2 sR (4000 * 600) = 0 \<longleftrightarrow> sR = 4000 * 600"
    using s2 by (intro opacity_zero_iff) simp_all
  show ?thesis
    apply (rule exI [of _ v'])
    using v' p1 p2 s1 s2 op os z1 z2 z3 z4
    by (simp add: wave_caps opacity_def)
qed

text \<open>
  Claim C8: at the frame at which both wavefronts reach their capped radius the
  animation stops and is torn down: the marker and both circles are off the map, the
  entry of the identifier is deleted, the view is reset to the initial centre and zoom,
  no frame is requested, and the view-fit timer of the animation is not pending.
\<close>

theorem capped_waves_torn_down:
  assumes cl: "closures s c = Some v"
    and p: "advance pWaveSpeed_m_s pWaveMaxRadius (pWaveRadius v)
              ((currentTime - cl_lastUpdateTime v) / 1000) = pWaveMaxRadius"
    and w: "advance sWaveSpeed_m_s sWaveMaxRadius (sWaveRadius v)
              ((currentTime - cl_lastUpdateTime v) / 1000) = sWaveMaxRadius"
  shows "cl_epicenter v \<notin> set (on_map (animateWaves c currentTime s))
     \<and> cl_pWave v \<notin> set (on_map (animateWaves c currentTime s))
     \<and> cl_sWave v \<notin> set (on_map (animateWaves c currentTime s))
     \<and> map_of (activeWaveAnimations (animateWaves c currentTime s)) (cl_eventId v) = None
     \<and> map_zoom (animateWaves c currentTime s) = Set_to INITIAL_MAP_ZOOM
     \<and> map_center (animateWaves c currentTime s) = Set_to INITIAL_MAP_CENTER
     \<and> frames (animateWaves c currentTime s) = frames s
     \<and> (\<exists>v'. closures (animateWaves c currentTime s) c = Some v'
           \<and> pWaveRadius v' = pWaveMaxRadius \<and> sWaveRadius v' = sWaveMaxRadius
           \<and> (\<forall>t. cl_fitViewTimer v' = Some t
                  \<longrightarrow> timers (animateWaves c currentTime s) t = None))"
  using assms
  by (simp add: frame_defs AList.delete_conv' split: option.splits prod.splits)


section \<open>Runs of the page\<close>

lemmas trace_defs =
  displayEew_def show_banner_def createEewAlertElement_def addEarthquake_def
  stop_existing_def setTimeout_def clearTimeout_def requestAnimationFrame_def
  cancelAnimationFrame_def map_remove_def new_overlay_def map_add_def hide_element_def
  remove_alert_def remove_wave_def frame_fires_def animateWaves_def set_circle_def
  timer_fires_def advance_def opacity_def wave_caps pWaveSpeed_m_s_def sWaveSpeed_m_s_def
  eventIdOf_def js_or_def isCancelReport_def isFinalReport_def
  valid_lat_lon_mag_def parsed_lat_lon_mag_def initial_state_def
  report_E1_def report_E1_second_def report_J1_def cancel_J1_def env0_def Let_def

text \<open>
  After the report E1 is displayed on the initial page, the banner is element 1, its
  expiry timer is 2, the marker and the circles are 3, 4 and 5, the closure of the
  animation is 6 and its first frame is 7.
\<close>

lemma first_report_closure:
  "closures (displayEew report_E1 env0 initial_state) 6 =
     Some \<lparr>cl_eventId = VStr ''E1'', cl_epicenter = 3, cl_pWave = 4, cl_sWave = 5,
           pWaveRadius = 0, sWaveRadius = 0, cl_lastUpdateTime = 0, cl_fitViewTimer = None\<rparr>"
  by (simp add: trace_defs)

lemma first_report_circles:
  "overlays (displayEew report_E1 env0 initial_state) 4 = Some (Circle (103, 31) 0 0.8 0.1)"
  "overlays (displayEew report_E1 env0 initial_state) 5 = Some (Circle (103, 31) 0 1 0.2)"
  by (simp_all add: trace_defs)

theorem capped_waves_torn_down_witness:
  "4 \<notin> set (on_map (animateWaves 6 600000 (displayEew report_E1 env0 initial_state)))
   \<and> map_of (activeWaveAnimations (animateWaves 6 600000
        (displayEew report_E1 env0 initial_state))) (VStr ''E1'') = None
   \<and> map_zoom (animateWaves 6 600000 (displayEew report_E1 env0 initial_state))
       = Set_to INITIAL_MAP_ZOOM
   \<and> map_of (activeWaveAnimations (displayEew report_E1 env0 initial_state)) (VStr ''E1'') \<noteq> None
   \<and> on_map (displayEew report_E1 env0 initial_state) = [3, 4, 5]"
proof -
  let ?v = "\<lparr>cl_eventId = VStr ''E1'', cl_epicenter = 3, cl_pWave = 4, cl_sWave = 5,
           pWaveRadius = 0, sWaveRadius = 0, cl_lastUpdateTime = 0, cl_fitViewTimer = None\<rparr>"
  have p: "advance pWaveSpeed_m_s pWaveMaxRadius (pWaveRadius ?v)
              ((600000 - cl_lastUpdateTime ?v) / 1000) = pWaveMaxRadius"
    by (simp add: advance_def wave_caps pWaveSpeed_m_s_def)
  have w: "advance sWaveSpeed_m_s sWaveMaxRadius (sWaveRadius ?v)
              ((600000 - cl_lastUpdateTime ?v) / 1000) = sWaveMaxRadius"
    by (simp add: advance_def wave_caps sWaveSpeed_m_s_def)
  have before: "map_of (activeWaveAnimations (displayEew report_E1 env0 initial_state)) (VStr ''E1'')
       \<noteq> None \<and> on_map (displayEew report_E1 env0 initial_state) = [3, 4, 5]"
    by (simp add: trace_defs)
  show ?thesis
    using capped_waves_torn_down [OF first_report_closure p w] before by simp
qed

text \<open>
  Claim C1 on a run: the report E1 is displayed, then its second report. The registry
  holds one entry for E1, whose banner (element 1) shows the second report; but the
  container holds two visible banner elements for E1, since the update calls
  \<^verbatim>\<open>createEewAlertElement\<close> for the new content and that function appends the element
  it builds (element 8).
\<close>

theorem update_appends_second_banner:
  "container (displayEew report_E1_second env0 (displayEew report_E1 env0 initial_state))
     = [1, 8]
   \<and> map (\<lambda>(k, a). (k, element a))
        (activeEewAlerts
          (displayEew report_E1_second env0 (displayEew report_E1 env0 initial_state)))
     = [(VStr ''E1'', 1)]
   \<and> elements (displayEew report_E1_second env0 (displayEew report_E1 env0 initial_state)) 1
     = Some \<lparr>data_event_id = VStr ''E1'', innerHTML = alertContent report_E1_second,
             hidden = False, remove_on_transitionend = False\<rparr>
   \<and> elements (displayEew report_E1_second env0 (displayEew report_E1 env0 initial_state)) 8
     = Some \<lparr>data_event_id = VStr ''E1'', innerHTML = alertContent report_E1_second,
             hidden = False, remove_on_transitionend = False\<rparr>"
  by (simp add: trace_defs)

text \<open>
  Claim C4 on a run: the report J1 is displayed, its first frame runs at 16 ms and sets
  the view-fit timer 8 in the closure, then the cancel report of J1 is processed. The
  alert, the animation entry and the overlays are gone and the view is reset, but timer
  8 is still pending: the entry of the registry holds the value that
  \<^verbatim>\<open>fitViewTimer\<close> had when the entry was stored, and that is \<^verbatim>\<open>null\<close>. When
  the timer fires it fits the view to the removed overlays.
\<close>

theorem cancel_leaves_fit_timer_pending:
  "timers (displayEew cancel_J1 env0
      (frame_fires 7 16 (displayEew report_J1 env0 initial_state))) 8 = Some (FitView 6)
   \<and> activeEewAlerts (displayEew cancel_J1 env0
      (frame_fires 7 16 (displayEew report_J1 env0 initial_state))) = []
   \<and> activeWaveAnimations (displayEew cancel_J1 env0
      (frame_fires 7 16 (displayEew report_J1 env0 initial_state))) = []
   \<and> on_map (displayEew cancel_J1 env0
      (frame_fires 7 16 (displayEew report_J1 env0 initial_state))) = []
   \<and> map_zoom (displayEew cancel_J1 env0
      (frame_fires 7 16 (displayEew report_J1 env0 initial_state))) = Set_to INITIAL_MAP_ZOOM
   \<and> map_zoom (timer_fires 8 (displayEew cancel_J1 env0
      (frame_fires 7 16 (displayEew report_J1 env0 initial_state)))) = Fit_to [3, 4, 5]"
  by (simp add: trace_defs)

text \<open>
  Claim C7 on a run: the report J1 is displayed, its first frame runs at 16 ms and sets
  the view-fit timer 8 in the closure 6, then J1 is reported again. The frame of the old
  animation is cancelled, its overlays are off the map and the new animation (closure
  15, overlays 12 to 14, frame 16) starts at radius 0; but the view-fit timer 8 of the
  old animation is still pending.
\<close>

theorem update_leaves_fit_timer_pending:
  "timers (displayEew report_J1 env0
      (frame_fires 7 16 (displayEew report_J1 env0 initial_state))) 8 = Some (FitView 6)
   \<and> map (\<lambda>(k, a). (k, epicenter a, pWave a, sWave a, animationFrameId a, fitViewTimer a))
       (activeWaveAnimations (displayEew report_J1 env0
          (frame_fires 7 16 (displayEew report_J1 env0 initial_state))))
     = [(VStr ''J1'', 12, 13, 14, 16, None)]
   \<and> frames (displayEew report_J1 env0
      (frame_fires 7 16 (displayEew report_J1 env0 initial_state))) 9 = None
   \<and> frames (displayEew report_J1 env0
      (frame_fires 7 16 (displayEew report_J1 env0 initial_state))) 16 = Some 15
   \<and> on_map (displayEew report_J1 env0
      (frame_fires 7 16 (displayEew report_J1 env0 initial_state))) = [12, 13, 14]
   \<and> map_option (\<lambda>v. (pWaveRadius v, sWaveRadius v))
       (closures (displayEew report_J1 env0
          (frame_fires 7 16 (displayEew report_J1 env0 initial_state))) 15) = Some (0, 0)"
  by (simp add: trace_defs)


section \<open>Wave animations of the pages that can arise\<close>

lemma closure_ok_mono:
  assumes "closure_ok s v" "\<And>h. h < next_handle s \<Longrightarrow> overlays s' h = overlays s h"
    "next_handle s \<le> next_handle s'"
  shows "closure_ok s' v"
  using assms by (simp add: closure_ok_def)

lemma waves_okD: "waves_ok s \<Longrightarrow> closures s c = Some v \<Longrightarrow> closure_ok s v"
  by (simp add: waves_ok_def)

lemma waves_ok_same:
  assumes "waves_ok s" "closures s' = closures s" "overlays s' = overlays s"
    "next_handle s \<le> next_handle s'"
  shows "waves_ok s'"
  unfolding waves_ok_def
proof (intro allI impI)
  fix c v
  assume "closures s' c = Some v"
  then have "closure_ok s v" using assms(1,2) by (simp add: waves_okD)
  then show "closure_ok s' v"
    by (rule closure_ok_mono) (simp_all add: assms(3,4))
qed

lemma waves_ok_remove_alert: "waves_ok s \<Longrightarrow> waves_ok (remove_alert k a s)"
  by (erule waves_ok_same) (simp_all add: removal_defs)

lemma waves_ok_remove_wave: "waves_ok s \<Longrightarrow> waves_ok (remove_wave k s)"
  by (erule waves_ok_same) (simp_all add: removal_defs split: option.splits)

lemma waves_ok_show_banner: "waves_ok s \<Longrightarrow> waves_ok (snd (show_banner data ev k s))"
  by (erule waves_ok_same)
     (simp_all add: show_banner_def createEewAlertElement_def clearTimeout_def Let_def
        split: option.splits)

lemma waves_ok_setTimeout: "waves_ok s \<Longrightarrow> waves_ok (snd (setTimeout act s))"
  by (erule waves_ok_same) (simp_all add: setTimeout_def Let_def)

lemma waves_ok_alerts_update: "waves_ok s \<Longrightarrow> waves_ok (s\<lparr>activeEewAlerts := al\<rparr>)"
  by (erule waves_ok_same) simp_all

lemma waves_ok_stop_existing: "waves_ok s \<Longrightarrow> waves_ok (stop_existing k s)"
  by (erule waves_ok_same) (simp_all add: stop_existing_def removal_defs split: option.splits)

lemma is_circle_with_radius: "is_circle x \<Longrightarrow> is_circle (map_option (with_radius r so fo) x)"
  by (cases x rule: is_circle.cases) simp_all

lemma addEarthquake_unfold:
  "addEarthquake lat lon magnitude k tnow s =
     (let s1 = stop_existing k s; n = next_handle s1
      in s1\<lparr>map_center := Set_to (lon, lat), map_zoom := Set_to 8,
            next_handle := n + 5,
            overlays := (overlays s1)(n \<mapsto> Marker (lon, lat) magnitude,
                                     Suc n \<mapsto> Circle (lon, lat) 0 0.8 0.1,
                                     Suc (Suc n) \<mapsto> Circle (lon, lat) 0 1 0.2),
            on_map := on_map s1 @ [n, Suc n, Suc (Suc n)],
            closures := (closures s1)(n + 3 \<mapsto>
               \<lparr>cl_eventId = k, cl_epicenter = n, cl_pWave = Suc n, cl_sWave = Suc (Suc n),
                pWaveRadius = 0, sWaveRadius = 0, cl_lastUpdateTime = tnow,
                cl_fitViewTimer = None\<rparr>),
            frames := (frames s1)(n + 4 \<mapsto> n + 3),
            activeWaveAnimations :=
              AList.update k
                \<lparr>epicenter = n, pWave = Suc n, sWave = Suc (Suc n), animationFrameId = n + 4,
                 lastUpdateTime = tnow, fitViewTimer = None\<rparr>
                (activeWaveAnimations s1)\<rparr>)"
  by (simp add: addEarthquake_def new_overlay_def map_add_def requestAnimationFrame_def Let_def
        numeral_eq_Suc)

lemma waves_ok_addEarthquake:
  assumes "waves_ok s"
  shows "waves_ok (addEarthquake lat lon magnitude k tnow s)"
  unfolding waves_ok_def
proof (intro allI impI)
  fix c v
  let ?s1 = "stop_existing k s"
  let ?s' = "addEarthquake lat lon magnitude k tnow s"
  assume c: "closures ?s' c = Some v"
  have ok1: "waves_ok ?s1" using assms by (rule waves_ok_stop_existing)
  show "closure_ok ?s' v"
  proof (cases "c = next_handle ?s1 + 3")
    case True
    then show ?thesis
      using c by (auto simp: addEarthquake_unfold Let_def closure_ok_def wave_caps)
  next
    case False
    then have "closures ?s1 c = Some v"
      using c by (simp add: addEarthquake_unfold Let_def)
    then have "closure_ok ?s1 v" using ok1 by (simp add: waves_okD)
    then show ?thesis
      by (rule closure_ok_mono) (simp_all add: addEarthquake_unfold Let_def)
  qed
qed


lemma waves_ok_animateWaves:
  assumes "waves_ok s"
  shows "waves_ok (animateWaves c currentTime s)"
proof (cases "closures s c")
  case None
  then show ?thesis using assms by (simp add: animateWaves_def)
next
  case (Some v)
  have okv: "closure_ok s v" using assms Some by (rule waves_okD)
  let ?s' = "animateWaves c currentTime s"
  have nh: "next_handle s \<le> next_handle ?s'"
    using Some by (simp add: frame_defs split: option.splits prod.splits)
  have circ: "is_circle (overlays s h) \<Longrightarrow> is_circle (overlays ?s' h)" for h
    using Some
    by (auto simp: frame_defs is_circle_with_radius split: option.splits prod.splits)
  have cl: "closures ?s' c' = Some v' \<Longrightarrow>
      (c' \<noteq> c \<and> closures s c' = Some v')
      \<or> (cl_pWave v' = cl_pWave v \<and> cl_sWave v' = cl_sWave v
          \<and> pWaveRadius v' \<le> pWaveMaxRadius \<and> sWaveRadius v' \<le> sWaveMaxRadius)" for c' v'
    using Some
    by (auto simp: frame_defs advance_def split: option.splits prod.splits if_splits)
  show ?thesis
    unfolding waves_ok_def
  proof (intro allI impI)
    fix c' v'
    assume a: "closures ?s' c' = Some v'"
    from cl [OF a] show "closure_ok ?s' v'"
    proof
      assume "c' \<noteq> c \<and> closures s c' = Some v'"
      then have "closure_ok s v'" using assms by (auto dest: waves_okD)
      then show ?thesis using nh circ by (auto simp: closure_ok_def)
    next
      assume "cl_pWave v' = cl_pWave v \<and> cl_sWave v' = cl_sWave v
          \<and> pWaveRadius v' \<le> pWaveMaxRadius \<and> sWaveRadius v' \<le> sWaveMaxRadius"
      then show ?thesis using okv nh circ by (auto simp: closure_ok_def)
    qed
  qed
qed

lemma waves_ok_frame_fires: "waves_ok s \<Longrightarrow> waves_ok (frame_fires f t s)"
proof -
  assume a: "waves_ok s"
  have "waves_ok (s\<lparr>frames := (frames s)(f := None)\<rparr>)"
    using a by (rule waves_ok_same) simp_all
  then show ?thesis
    by (simp add: frame_fires_def waves_ok_animateWaves a split: option.splits)
qed

lemma waves_ok_timer_fires: "waves_ok s \<Longrightarrow> waves_ok (timer_fires t s)"
  unfolding waves_ok_def closure_ok_def
  by (auto simp: timer_fires_def hide_element_def Let_def
        split: option.splits timer_action.splits if_splits)

lemma waves_ok_transitionend: "waves_ok s \<Longrightarrow> waves_ok (transitionend h s)"
  by (erule waves_ok_same) (simp_all add: transitionend_def split: option.splits)

lemma waves_ok_displayEew: "waves_ok s \<Longrightarrow> waves_ok (displayEew data ev s)"
  by (auto simp: displayEew_def Let_def case_prod_beta
        intro!: waves_ok_remove_wave waves_ok_remove_alert waves_ok_addEarthquake
          waves_ok_alerts_update waves_ok_setTimeout waves_ok_show_banner
        split: option.splits)

lemma waves_ok_process_results: "waves_ok s \<Longrightarrow> waves_ok (process_results rs s)"
  by (induction rs s rule: process_results.induct) (simp_all add: waves_ok_displayEew)

lemma waves_ok_evict_entry: "waves_ok s \<Longrightarrow> waves_ok (evict_entry R kv b s)"
  by (cases kv) (simp add: evict_entry_def waves_ok_remove_wave waves_ok_remove_alert)

lemma waves_ok_evict_loop: "waves_ok s \<Longrightarrow> waves_ok (snd (evict_loop R kvs s))"
  by (induction kvs arbitrary: s) (simp_all add: waves_ok_evict_entry split: option.splits)

lemma waves_ok_pollCycle: "waves_ok s \<Longrightarrow> waves_ok (snd (pollCycle rs s))"
  by (simp add: pollCycle_def evict_missing_def waves_ok_evict_loop waves_ok_process_results)

lemma reachable_waves_ok: "reachable s \<Longrightarrow> waves_ok s"
proof (induction rule: reachable.induct)
  case start
  then show ?case by (simp add: waves_ok_def initial_state_def)
qed (simp_all add: waves_ok_displayEew waves_ok_frame_fires waves_ok_timer_fires
       waves_ok_transitionend waves_ok_pollCycle)

lemma is_circleE:
  assumes "is_circle x"
  obtains ctr r so fo where "x = Some (Circle ctr r so fo)"
  using assms by (cases x rule: is_circle.cases) simp_all

text \<open>
  Claim C6, as stated: at every frame the radius of each wavefront does not decrease.
  The animation of the report E1 starts at 1000 ms on the clock of
  \<^verbatim>\<open>performance.now()\<close> (line 503); its first frame callback is given the time 500 ms
  (line 507 subtracts without a test). The radii go from 0 to -3000 and -2000.
\<close>

theorem early_frame_shrinks_radius:
  "reachable (displayEew report_E1 env1 initial_state)
   \<and> frames (displayEew report_E1 env1 initial_state) 7 = Some 6
   \<and> closures (displayEew report_E1 env1 initial_state) 6 =
       Some \<lparr>cl_eventId = VStr ''E1'', cl_epicenter = 3, cl_pWave = 4, cl_sWave = 5,
             pWaveRadius = 0, sWaveRadius = 0, cl_lastUpdateTime = 1000,
             cl_fitViewTimer = None\<rparr>
   \<and> closures (frame_fires 7 500 (displayEew report_E1 env1 initial_state)) 6 =
       Some \<lparr>cl_eventId = VStr ''E1'', cl_epicenter = 3, cl_pWave = 4, cl_sWave = 5,
             pWaveRadius = - 3000, sWaveRadius = - 2000, cl_lastUpdateTime = 500,
             cl_fitViewTimer = Some 8\<rparr>
   \<and> overlays (frame_fires 7 500 (displayEew report_E1 env1 initial_state)) 4 =
       Some (Circle (103, 31) (- 3000) (max 0 (0.8 * (1 - (- 3000) / (6000 * 600))))
               (max 0 (0.1 * (1 - (- 3000) / (6000 * 600)))))"
proof -
  have "reachable (displayEew report_E1 env1 initial_state)"
    by (intro reachable.intros)
  then show ?thesis
    by (simp add: trace_defs env1_def)
qed

text \<open>
  Claim C6, amended: on every page that can arise, at every frame of a wave animation
  the radius of each wavefront (P at 6 km/s, S at 4 km/s) does not exceed its cap, the
  speed times 600 s; each opacity set on a circle is its initial value times
  \<open>1 - radius / cap\<close>, not below 0; an opacity is 0 exactly when the radius is at its
  cap; and the radius does not decrease at a frame whose time is not before the time of
  the last update.
\<close>

theorem wave_radius_and_opacity:
  assumes r: "reachable s" and f: "frames s f = Some c" and cl: "closures s c = Some v"
  shows "\<exists>v' pc sc. closures (frame_fires f currentTime s) c = Some v' \<and>
     (cl_lastUpdateTime v \<le> currentTime \<longrightarrow>
        pWaveRadius v \<le> pWaveRadius v' \<and> sWaveRadius v \<le> sWaveRadius v') \<and>
     pWaveRadius v' \<le> 6000 * 600 \<and> sWaveRadius v' \<le> 4000 * 600 \<and>
     overlays (frame_fires f currentTime s) (cl_pWave v) =
       Some (Circle pc (pWaveRadius v')
               (max 0 (0.8 * (1 - pWaveRadius v' / (6000 * 600))))
               (max 0 (0.1 * (1 - pWaveRadius v' / (6000 * 600))))) \<and>
     overlays (frame_fires f currentTime s) (cl_sWave v) =
       Some (Circle sc (sWaveRadius v')
               (max 0 (1 * (1 - sWaveRadius v' / (4000 * 600))))
               (max 0 (0.2 * (1 - sWaveRadius v' / (4000 * 600))))) \<and>
     (max 0 (0.8 * (1 - pWaveRadius v' / (6000 * 600))) = 0
        \<longleftrightarrow> pWaveRadius v' = 6000 * 600) \<and>
     (max 0 (0.1 * (1 - pWaveRadius v' / (6000 * 600))) = 0
        \<longleftrightarrow> pWaveRadius v' = 6000 * 600) \<and>
     (max 0 (1 * (1 - sWaveRadius v' / (4000 * 600))) = 0
        \<longleftrightarrow> sWaveRadius v' = 4000 * 600) \<and>
     (max 0 (0.2 * (1 - sWaveRadius v' / (4000 * 600))) = 0
        \<longleftrightarrow> sWaveRadius v' = 4000 * 600)"
proof -
  let ?s0 = "s\<lparr>frames := (frames s)(f := None)\<rparr>"
  have ok: "closure_ok s v"
    using reachable_waves_ok [OF r] cl by (rule waves_okD)
  obtain pc pr pso pfo where p: "overlays s (cl_pWave v) = Some (Circle pc pr pso pfo)"
    using ok by (auto simp: closure_ok_def elim: is_circleE)
  obtain sc sr sso sfo where w: "overlays s (cl_sWave v) = Some (Circle sc sr sso sfo)"
    using ok by (auto simp: closure_ok_def elim: is_circleE)
  have step: "frame_fires f currentTime s = animateWaves c currentTime ?s0"
    using f by (simp add: frame_fires_def)
  have "closures ?s0 c = Some v" "overlays ?s0 (cl_pWave v) = Some (Circle pc pr pso pfo)"
    "overlays ?s0 (cl_sWave v) = Some (Circle sc sr sso sfo)"
    using cl p w by simp_all
  moreover have "pWaveRadius v \<le> pWaveMaxRadius" "sWaveRadius v \<le> sWaveMaxRadius"
    "cl_pWave v \<noteq> cl_sWave v"
    using ok by (simp_all add: closure_ok_def)
  ultimately show ?thesis
    unfolding step
    using frame_radius_and_opacity [of ?s0 c v pc pr pso pfo sc sr sso sfo currentTime]
    by blast
qed

theorem wave_radius_and_opacity_witness:
  "reachable (displayEew report_E1 env0 initial_state)
   \<and> frames (displayEew report_E1 env0 initial_state) 7 = Some 6
   \<and> (\<exists>v'. closures (frame_fires 7 16 (displayEew report_E1 env0 initial_state)) 6 = Some v'
        \<and> 0 \<le> pWaveRadius v' \<and> pWaveRadius v' \<le> 6000 * 600
        \<and> 0 \<le> sWaveRadius v' \<and> sWaveRadius v' \<le> 4000 * 600)"
proof -
  let ?v = "\<lparr>cl_eventId = VStr ''E1'', cl_epicenter = 3, cl_pWave = 4, cl_sWave = 5,
           pWaveRadius = 0, sWaveRadius = 0, cl_lastUpdateTime = 0, cl_fitViewTimer = None\<rparr>"
  let ?s = "displayEew report_E1 env0 initial_state"
  have r: "reachable ?s"
    by (intro reachable.intros)
  have f: "frames ?s 7 = Some 6"
    by (simp add: trace_defs)
  have t: "cl_lastUpdateTime ?v \<le> 16"
    by simp
  from wave_radius_and_opacity [OF r f first_report_closure, of 16]
  obtain v' where "closures (frame_fires 7 16 ?s) 6 = Some v'"
    and "cl_lastUpdateTime ?v \<le> 16 \<longrightarrow>
           pWaveRadius ?v \<le> pWaveRadius v' \<and> sWaveRadius ?v \<le> sWaveRadius v'"
    and "pWaveRadius v' \<le> 6000 * 600" and "sWaveRadius v' \<le> 4000 * 600"
    by blast
  then show ?thesis using r f t by simp
qed

section \<open>Runs of the polling cycle\<close>

lemmas cycle_defs =
  pollCycle_def evict_missing_def evict_entry_def cycle_id_def no_results_def
  report_serial_only_def report_numeric_id_def

text \<open>
  Claim C5 on runs. First run: the report E1 is displayed, its first frame runs at 16
  ms and sets the view-fit timer 8 in the closure 6; then a polling cycle in which no
  feed answers ends. The alert E1 is evicted: its entries, its expiry timer 2, its
  frame 9 and its overlays are gone and the view is reset; but the view-fit timer 8 is
  still pending, since line 672 tests the value stored in the entry, which is always
  \<^verbatim>\<open>null\<close>, and when it fires it fits the view to the removed overlays. Second
  run: a feed reports with a \<^verbatim>\<open>Serial\<close> and no other identifier; the cycle records the
  serial number as received, but the alert is stored under a generated key that starts
  with \<^verbatim>\<open>test-\<close>, so the next cycle, in which no feed answers, does not evict it.
  Third run: a report whose only identifier is the number 7 is displayed; the cycle in
  which no feed answers raises a \<^verbatim>\<open>TypeError\<close> at line 659 and evicts nothing.
\<close>

theorem cycle_eviction_leaks_and_misses:
  "fst (pollCycle no_results (frame_fires 7 16 (displayEew report_E1 env0 initial_state)))
     = Completed
   \<and> activeEewAlerts (snd (pollCycle no_results
        (frame_fires 7 16 (displayEew report_E1 env0 initial_state)))) = []
   \<and> activeWaveAnimations (snd (pollCycle no_results
        (frame_fires 7 16 (displayEew report_E1 env0 initial_state)))) = []
   \<and> on_map (snd (pollCycle no_results
        (frame_fires 7 16 (displayEew report_E1 env0 initial_state)))) = []
   \<and> timers (snd (pollCycle no_results
        (frame_fires 7 16 (displayEew report_E1 env0 initial_state)))) 2 = None
   \<and> frames (snd (pollCycle no_results
        (frame_fires 7 16 (displayEew report_E1 env0 initial_state)))) 9 = None
   \<and> map_zoom (snd (pollCycle no_results
        (frame_fires 7 16 (displayEew report_E1 env0 initial_state))))
       = Set_to INITIAL_MAP_ZOOM
   \<and> timers (snd (pollCycle no_results
        (frame_fires 7 16 (displayEew report_E1 env0 initial_state)))) 8 = Some (FitView 6)
   \<and> map_zoom (timer_fires 8 (snd (pollCycle no_results
        (frame_fires 7 16 (displayEew report_E1 env0 initial_state))))) = Fit_to [3, 4, 5]
   \<and> receivedEventIdsThisCycle [(Some report_serial_only, env0)] = [VNum 1]
   \<and> map fst (activeEewAlerts (snd (pollCycle [(Some report_serial_only, env0)]
        initial_state))) = [VStr ''test-r1'']
   \<and> map fst (activeEewAlerts (snd (pollCycle no_results
        (snd (pollCycle [(Some report_serial_only, env0)] initial_state)))))
       = [VStr ''test-r1'']
   \<and> map fst (activeEewAlerts (displayEew report_numeric_id env0 initial_state)) = [VNum 7]
   \<and> fst (pollCycle no_results (displayEew report_numeric_id env0 initial_state))
       = Raised_TypeError
   \<and> map fst (activeEewAlerts (snd (pollCycle no_results
        (displayEew report_numeric_id env0 initial_state)))) = [VNum 7]"
  by (simp add: trace_defs cycle_defs)

end
